theory Spec2Isabelle
  imports Complex_Main "HOL-Library.Word"
begin

section \<open>The GELF UDP writer (gelf/udpwriter.go)\<close>

subsection \<open>Data\<close>

type_synonym byte = "8 word"
type_synonym bytes = "byte list"

text \<open>
  Go's \<^verbatim>\<open>type CompressType int\<close>: every \<open>int\<close> is a value of the type, and
  the three enumerators are \<open>iota\<close> constants starting at 0.
\<close>

type_synonym CompressType = int

definition CompressGzip :: CompressType where "CompressGzip = 0"
definition CompressZlib :: CompressType where "CompressZlib = 1"
definition CompressNone :: CompressType where "CompressNone = 2"

definition ChunkSize :: int where "ChunkSize = 1420"
definition chunkedHeaderLen :: int where "chunkedHeaderLen = 12"
definition chunkedDataLen :: int where "chunkedDataLen = ChunkSize - chunkedHeaderLen"

text \<open>The constant \<^verbatim>\<open>flate.BestSpeed\<close> of the standard library.\<close>

definition flate_BestSpeed :: int where "flate_BestSpeed = 1"

text \<open>
  Error values. \<open>Err\<close> is an error produced by a collaborator (the serializer, a
  codec, the network), named by its message; \<open>bad_write n l\<close> is the value of
  \<^verbatim>\<open>fmt.Errorf("bad write (%d/%d)", n, l)\<close>.
\<close>

datatype error = Err string | bad_write int int

text \<open>
  The values a call can panic with: the \<^verbatim>\<open>panic(fmt.Sprintf("unknown compression type %d", t))\<close>
  of \<open>WriteMessage\<close>, and the run-time panic of a method call on a nil interface.
\<close>

datatype panic = unknown_compression_type int | nil_dereference

datatype 'a outcome = Return 'a | Panic panic

subsection \<open>numChunks\<close>

text \<open>
  \<^verbatim>\<open>
  func numChunks(b []byte) int {
      lenB := len(b)
      if lenB <= ChunkSize { return 1 }
      return len(b)/chunkedDataLen + 1
  }
  \<close>
  A slice's length is a non-negative \<open>int\<close>, so Go's truncating division is \<open>div\<close>
  here and the sum cannot overflow.
\<close>

definition numChunks :: "bytes \<Rightarrow> int" where
  "numChunks b =
    (let lenB = int (length b) in
     if lenB \<le> ChunkSize then 1
     else int (length b) div chunkedDataLen + 1)"

subsection \<open>The writer, its collaborators and the state of a call\<close>

text \<open>A connected transport: \<^verbatim>\<open>conn.Write(p)\<close> returns a byte count and an error.\<close>

type_synonym conn = "bytes \<Rightarrow> int \<times> error option"

text \<open>
  Modelled from the spec: the declaration of the embedded struct \<open>Writer\<close> is not in
  udpwriter.go. The spec gives it the destination socket handle and the hostname and
  facility metadata; udpwriter.go uses exactly the fields \<open>conn\<close>, \<open>hostname\<close> and
  \<open>Facility\<close>. A nil interface value is \<open>None\<close>.
\<close>

record Writer =
  conn :: "conn option"
  hostname :: string
  Facility :: string

record UDPWriter = Writer +
  CompressionLevel :: int
  CompressionType :: CompressType

text \<open>\<^verbatim>\<open>new(UDPWriter)\<close>: every field at its zero value.\<close>

definition new_UDPWriter :: UDPWriter where
  "new_UDPWriter =
    \<lparr>conn = None, hostname = [], Facility = [], CompressionLevel = 0, CompressionType = 0\<rparr>"

text \<open>
  The two pooled buffers of a call are named after the variables that hold them. A
  slice is the bytes it shows together with the buffer whose storage it shares
  (\<^verbatim>\<open>mBuf.Bytes()\<close> and \<^verbatim>\<open>zBuf.Bytes()\<close> return views, not copies).
\<close>

datatype bufname = MBuf | ZBuf

type_synonym slice = "bufname \<times> bytes"

datatype codec_name = Gzip | Zlib

text \<open>
  A streaming compressor of the standard library (\<^verbatim>\<open>compress/gzip\<close>, \<^verbatim>\<open>compress/zlib\<close>),
  taken as a parameter. \<open>zNew level\<close> is the error of \<^verbatim>\<open>NewWriterLevel(zBuf, level)\<close>;
  \<open>zWrite level p\<close> is what \<^verbatim>\<open>zw.Write(p)\<close> appends to the scratch buffer, and its
  error; \<open>zClose level p werr\<close> is what \<^verbatim>\<open>zw.Close()\<close> appends and returns after a
  write of \<open>p\<close> that returned \<open>werr\<close>.
\<close>

record codec =
  zNew :: "int \<Rightarrow> error option"
  zWrite :: "int \<Rightarrow> bytes \<Rightarrow> bytes \<times> error option"
  zClose :: "int \<Rightarrow> bytes \<Rightarrow> error option \<Rightarrow> bytes \<times> error option"

text \<open>
  The functions of the repository that udpwriter.go calls and does not define, taken
  as parameters: the serializer \<^verbatim>\<open>m.MarshalJSONBuf(mBuf)\<close> (its error, or the bytes it
  leaves in the buffer), \<^verbatim>\<open>w.writeChunked\<close>, \<^verbatim>\<open>getCallerIgnoringLogMulti\<close> and
  \<^verbatim>\<open>constructMessage\<close>; and the two codecs.
\<close>

record 'm env =
  MarshalJSONBuf :: "'m \<Rightarrow> error + bytes"
  gzip :: codec
  zlib :: codec
  writeChunked :: "bytes \<Rightarrow> error option"
  getCallerIgnoringLogMulti :: "int \<Rightarrow> string \<times> int"
  constructMessage :: "bytes \<Rightarrow> string \<Rightarrow> string \<Rightarrow> string \<Rightarrow> int \<Rightarrow> 'm"

text \<open>
  What a call does to the world, in order. \<open>Get\<close> and \<open>Put\<close> are \<^verbatim>\<open>bufPool.Get\<close>
  and \<^verbatim>\<open>bufPool.Put\<close>; \<open>ZClose\<close> carries the error \<^verbatim>\<open>zw.Close()\<close> returned;
  \<open>ConnWrite\<close> and \<open>WriteChunked\<close> carry the slice handed to the sender.
\<close>

datatype event =
    Get bufname
  | Put bufname
  | NewWriterLevel codec_name int
  | ZWrite bytes
  | ZClose "error option"
  | ConnWrite slice
  | WriteChunked slice

text \<open>
  The state threaded through a call: the number of buffers taken from \<open>bufPool\<close> and
  not put back (an \<open>int\<close>, so that a surplus \<open>Put\<close> would show), and the events so far.
\<close>

record state =
  outstanding :: int
  trace :: "event list"

definition emit :: "event \<Rightarrow> state \<Rightarrow> state" where
  "emit e s = s\<lparr>trace := trace s @ [e]\<rparr>"

text \<open>
  \<^verbatim>\<open>newBuffer()\<close> takes a buffer from the pool and resets it, or allocates one: in both
  cases the caller holds one more buffer, and it is empty.
\<close>

definition newBuffer :: "bufname \<Rightarrow> state \<Rightarrow> state" where
  "newBuffer b s = emit (Get b) (s\<lparr>outstanding := outstanding s + 1\<rparr>)"

definition bufPool_Put :: "bufname \<Rightarrow> state \<Rightarrow> state" where
  "bufPool_Put b s = emit (Put b) (s\<lparr>outstanding := outstanding s - 1\<rparr>)"

text \<open>
  Go runs the deferred calls of a function when it returns and when it panics, last
  deferred first. The list holds the buffers of the pending \<^verbatim>\<open>defer bufPool.Put(b)\<close>,
  most recent first.
\<close>

definition run_deferred :: "bufname list \<Rightarrow> state \<Rightarrow> state" where
  "run_deferred ds s = fold bufPool_Put ds s"

subsection \<open>WriteMessage\<close>

text \<open>
  \<open>WriteMessage\<close> is embedded in two parts, lines 103 to 141 (serialize and compress)
  and lines 143 to 154 (send). The first part either ends the call (\<open>Done\<close>: a return
  or a panic) or reaches line 143 with a value of \<open>zBytes\<close> (\<open>Payload\<close>).
\<close>

datatype flow = Done "error option outcome" | Payload slice

text \<open>
  The arms \<^verbatim>\<open>case CompressGzip\<close> and \<^verbatim>\<open>case CompressZlib\<close> of the switch, followed
  by the block \<^verbatim>\<open>if zw != nil { ... }\<close>. The interface variable \<open>zw\<close> is assigned in
  these two arms only, and holds a typed pointer there even when the constructor
  fails, so the block runs exactly after these arms:
  \<^verbatim>\<open>
  zBuf = newBuffer()
  defer bufPool.Put(zBuf)
  zw, err = gzip.NewWriterLevel(zBuf, w.CompressionLevel)
  ...
  if err != nil { return }
  if _, err = zw.Write(mBytes); err != nil { zw.Close(); return }
  zw.Close()
  zBytes = zBuf.Bytes()
  \<close>
  \<open>d\<close> holds the deferred calls pending on entry; the result has those pending on exit.
\<close>

definition compress ::
  "codec_name \<Rightarrow> codec \<Rightarrow> int \<Rightarrow> bytes \<Rightarrow> bufname list \<Rightarrow> state \<Rightarrow> flow \<times> bufname list \<times> state" where
  "compress k c level mBytes d s =
    (let s1 = newBuffer ZBuf s;
         d1 = ZBuf # d;
         err = zNew c level;
         s2 = emit (NewWriterLevel k level) s1
     in if err \<noteq> None then (Done (Return err), d1, s2)
        else
          (let (out1, werr) = zWrite c level mBytes;
               s3 = emit (ZWrite mBytes) s2
           in if werr \<noteq> None then
                (let (out2, cerr) = zClose c level mBytes werr
                 in (Done (Return werr), d1, emit (ZClose cerr) s3))
              else
                (let (out2, cerr) = zClose c level mBytes werr
                 in (Payload (ZBuf, out1 @ out2), d1, emit (ZClose cerr) s3))))"

text \<open>
  Lines 103 to 141:
  \<^verbatim>\<open>
  mBuf := newBuffer()
  defer bufPool.Put(mBuf)
  if err = m.MarshalJSONBuf(mBuf); err != nil { return err }
  mBytes := mBuf.Bytes()
  switch w.CompressionType {
  case CompressGzip: ...
  case CompressZlib: ...
  case CompressNone: zBytes = mBytes
  default: panic(fmt.Sprintf("unknown compression type %d", w.CompressionType))
  }
  \<close>
\<close>

definition WriteMessage_payload ::
  "UDPWriter \<Rightarrow> 'm env \<Rightarrow> 'm \<Rightarrow> state \<Rightarrow> flow \<times> bufname list \<times> state" where
  "WriteMessage_payload w env m s =
    (let s1 = newBuffer MBuf s;
         d1 = [MBuf]
     in case MarshalJSONBuf env m of
          Inl err \<Rightarrow> (Done (Return (Some err)), d1, s1)
        | Inr mBytes \<Rightarrow>
            if CompressionType w = CompressGzip then
              compress Gzip (gzip env) (CompressionLevel w) mBytes d1 s1
            else if CompressionType w = CompressZlib then
              compress Zlib (zlib env) (CompressionLevel w) mBytes d1 s1
            else if CompressionType w = CompressNone then (Payload (MBuf, mBytes), d1, s1)
            else (Done (Panic (unknown_compression_type (CompressionType w))), d1, s1))"

text \<open>
  Lines 143 to 154:
  \<^verbatim>\<open>
  if numChunks(zBytes) > 1 { return w.writeChunked(zBytes) }
  n, err := w.conn.Write(zBytes)
  if err != nil { return }
  if n != len(zBytes) { return fmt.Errorf("bad write (%d/%d)", n, len(zBytes)) }
  return nil
  \<close>
  \<open>err\<close> is the named result here too (\<open>:=\<close> declares \<open>n\<close> only), so the bare return
  returns the transport's error.
\<close>

definition WriteMessage_send ::
  "UDPWriter \<Rightarrow> 'm env \<Rightarrow> slice \<Rightarrow> state \<Rightarrow> error option outcome \<times> state" where
  "WriteMessage_send w env zBytes s =
    (if numChunks (snd zBytes) > 1 then
       (Return (writeChunked env (snd zBytes)), emit (WriteChunked zBytes) s)
     else
       (case conn w of
          None \<Rightarrow> (Panic nil_dereference, s)
        | Some c \<Rightarrow>
            (let (n, err) = c (snd zBytes);
                 s' = emit (ConnWrite zBytes) s
             in if err \<noteq> None then (Return err, s')
                else if n \<noteq> int (length (snd zBytes)) then
                  (Return (Some (bad_write n (int (length (snd zBytes))))), s')
                else (Return None, s'))))"

text \<open>The call: the two parts, then the deferred calls, on a return and on a panic alike.\<close>

definition WriteMessage :: "UDPWriter \<Rightarrow> 'm env \<Rightarrow> 'm \<Rightarrow> state \<Rightarrow> error option outcome \<times> state" where
  "WriteMessage w env m s =
    (case WriteMessage_payload w env m s of
       (Done r, d, s1) \<Rightarrow> (r, run_deferred d s1)
     | (Payload zBytes, d, s1) \<Rightarrow>
         (let (r, s2) = WriteMessage_send w env zBytes s1 in (r, run_deferred d s2)))"

subsection \<open>Write\<close>

text \<open>
  \<^verbatim>\<open>
  func (w *UDPWriter) Write(p []byte) (n int, err error) {
      file, line := getCallerIgnoringLogMulti(1)
      m := constructMessage(p, w.hostname, w.Facility, file, line)
      if err = w.WriteMessage(m); err != nil { return 0, err }
      return len(p), nil
  }
  \<close>
  A panic of \<open>WriteMessage\<close> passes through \<open>Write\<close>, which defers nothing.
\<close>

definition Write :: "UDPWriter \<Rightarrow> 'm env \<Rightarrow> bytes \<Rightarrow> state \<Rightarrow> (int \<times> error option) outcome \<times> state" where
  "Write w env p s =
    (let (file, line) = getCallerIgnoringLogMulti env 1;
         m = constructMessage env p (hostname w) (Facility w) file line;
         (r, s') = WriteMessage w env m s
     in case r of
          Panic x \<Rightarrow> (Panic x, s')
        | Return (Some err) \<Rightarrow> (Return (0, Some err), s')
        | Return None \<Rightarrow> (Return (int (length p), None), s'))"

subsection \<open>NewUDPWriter\<close>

text \<open>
  What \<open>NewUDPWriter\<close> asks of the operating system and the standard library, as
  parameters: \<^verbatim>\<open>net.Dial\<close>, \<^verbatim>\<open>os.Hostname\<close>, \<^verbatim>\<open>os.Args[0]\<close> and \<^verbatim>\<open>path.Base\<close>.
\<close>

record sys =
  Dial :: "string \<Rightarrow> string \<Rightarrow> error + conn"
  Hostname :: "error + string"
  Args0 :: string
  Base :: "string \<Rightarrow> string"

text \<open>
  \<^verbatim>\<open>
  w := new(UDPWriter)
  w.CompressionLevel = flate.BestSpeed
  if w.conn, err = net.Dial("udp", addr); err != nil { return nil, err }
  if w.hostname, err = os.Hostname(); err != nil { return nil, err }
  w.Facility = path.Base(os.Args[0])
  return w, nil
  \<close>
\<close>

definition NewUDPWriter :: "sys \<Rightarrow> string \<Rightarrow> error + UDPWriter" where
  "NewUDPWriter sy addr =
    (let w = new_UDPWriter;
         w = w\<lparr>CompressionLevel := flate_BestSpeed\<rparr>
     in case Dial sy ''udp'' addr of
          Inl err \<Rightarrow> Inl err
        | Inr c \<Rightarrow>
            (let w = w\<lparr>conn := Some c\<rparr>
             in case Hostname sy of
                  Inl err \<Rightarrow> Inl err
                | Inr h \<Rightarrow>
                    (let w = w\<lparr>hostname := h\<rparr>;
                         w = w\<lparr>Facility := Base sy (Args0 sy)\<rparr>
                     in Inr w)))"

subsection \<open>Observations on a trace\<close>

text \<open>The slices handed to a sender, and the pool's events, in order.\<close>

definition sent_slice :: "event \<Rightarrow> slice option" where
  "sent_slice e = (case e of ConnWrite z \<Rightarrow> Some z | WriteChunked z \<Rightarrow> Some z | _ \<Rightarrow> None)"

definition sends :: "event list \<Rightarrow> slice list" where
  "sends t = List.map_filter sent_slice t"

definition is_pool_event :: "event \<Rightarrow> bool" where
  "is_pool_event e = (case e of Get b \<Rightarrow> True | Put b \<Rightarrow> True | _ \<Rightarrow> False)"

definition pool_events :: "event list \<Rightarrow> event list" where
  "pool_events t = filter is_pool_event t"

subsection \<open>Concrete inputs\<close>

text \<open>
  A toy codec that prefixes the payload with a byte and appends one on close, with the
  error of each of its three operations chosen by the caller.
\<close>

definition toy_codec :: "error option \<Rightarrow> error option \<Rightarrow> error option \<Rightarrow> codec" where
  "toy_codec nerr werr cerr =
    \<lparr>zNew = (\<lambda>level. nerr),
     zWrite = (\<lambda>level p. (31 # p, werr)),
     zClose = (\<lambda>level p e. ([0], cerr))\<rparr>"

text \<open>
  An environment whose messages are their own serialization (or fail to serialize with
  \<open>merr\<close>), with one codec for both formats and a chunked sender that succeeds.
\<close>

definition toy_env :: "error option \<Rightarrow> codec \<Rightarrow> bytes env" where
  "toy_env merr c =
    \<lparr>MarshalJSONBuf = (\<lambda>m. case merr of Some e \<Rightarrow> Inl e | None \<Rightarrow> Inr m),
     gzip = c,
     zlib = c,
     writeChunked = (\<lambda>b. None),
     getCallerIgnoringLogMulti = (\<lambda>skip. (''main.go'', 7)),
     constructMessage = (\<lambda>p host facility file line. p)\<rparr>"

text \<open>A transport that accepts every datagram whole, and one that refuses every datagram.\<close>

definition good_conn :: conn where
  "good_conn p = (int (length p), None)"

definition refusing_conn :: conn where
  "refusing_conn p = (0, Some (Err ''connection refused''))"

definition short_conn :: conn where
  "short_conn p = (int (length p) - 1, None)"

definition toy_writer :: "conn \<Rightarrow> CompressType \<Rightarrow> UDPWriter" where
  "toy_writer c t =
    \<lparr>conn = Some c, hostname = ''host'', Facility = ''app'',
     CompressionLevel = flate_BestSpeed, CompressionType = t\<rparr>"

definition toy_sys :: sys where
  "toy_sys =
    \<lparr>Dial = (\<lambda>network addr. Inr good_conn),
     Hostname = Inr ''host'',
     Args0 = ''/usr/bin/app'',
     Base = (\<lambda>p. ''app'')\<rparr>"

definition idle :: state where
  "idle = \<lparr>outstanding = 0, trace = []\<rparr>"

section \<open>Properties\<close>

subsection \<open>The chunk planner\<close>

lemmas chunk_consts = ChunkSize_def chunkedHeaderLen_def chunkedDataLen_def

lemma numChunks_le_ChunkSize: "int (length b) \<le> ChunkSize \<Longrightarrow> numChunks b = 1"
  by (simp add: numChunks_def)

lemma numChunks_gt_ChunkSize:
  "ChunkSize < int (length b) \<Longrightarrow> numChunks b = int (length b) div 1408 + 1"
  by (simp add: numChunks_def chunk_consts)

lemma ceiling_div_1408:
  fixes n :: nat
  shows "\<lceil>real n / 1408\<rceil> = (if 1408 dvd n then int n div 1408 else int n div 1408 + 1)"
proof -
  have "\<lceil>real n / 1408\<rceil> = \<lceil>of_int (int n) / (of_int 1408 :: real)\<rceil>"
    by simp
  also have "\<dots> = - ((- int n) div 1408)"
    unfolding ceiling_divide_eq_div ..
  also have "\<dots> = (if 1408 dvd n then int n div 1408 else int n div 1408 + 1)"
    using zmod_int [of n 1408] by (simp add: zdiv_zminus1_eq_if dvd_eq_mod_eq_0)
  finally show ?thesis .
qed

text \<open>
  Above \<open>ChunkSize\<close> the planner agrees with the ceiling exactly when the length is not
  a multiple of 1408, and is one more than the ceiling when it is.
\<close>

lemma numChunks_ceiling:
  "ChunkSize < int (length b) \<Longrightarrow> \<not> 1408 dvd length b \<Longrightarrow>
     numChunks b = \<lceil>real (length b) / real_of_int (ChunkSize - 12)\<rceil>"
  by (simp add: numChunks_gt_ChunkSize) (simp add: ChunkSize_def ceiling_div_1408)

lemma numChunks_multiple:
  "ChunkSize < int (length b) \<Longrightarrow> 1408 dvd length b \<Longrightarrow>
     numChunks b = \<lceil>real (length b) / real_of_int (ChunkSize - 12)\<rceil> + 1"
  by (simp add: numChunks_gt_ChunkSize) (simp add: ChunkSize_def ceiling_div_1408)

text \<open>
  C1. The claim is that \<open>numChunks b\<close> is 1 up to \<open>ChunkSize\<close> bytes and the ceiling of
  \<open>len(b) / (ChunkSize - 12)\<close> above. A payload of 2816 bytes (twice 1408) is longer
  than \<open>ChunkSize\<close>; two chunks are necessary to carry it and the ceiling is 2, but
  \<open>numChunks\<close> returns 3.
\<close>

theorem numChunks_exact_multiple:
  "ChunkSize < int (length (replicate 2816 (0::byte))) \<and>
   numChunks (replicate 2816 0) = 3 \<and>
   \<lceil>real (length (replicate 2816 (0::byte))) / real_of_int (ChunkSize - 12)\<rceil> = 2"
  by (simp add: numChunks_def chunk_consts)

subsection \<open>The pool\<close>

lemmas state_ops = emit_def newBuffer_def bufPool_Put_def run_deferred_def

lemma pool_events_append [simp]: "pool_events (a @ b) = pool_events a @ pool_events b"
  by (simp add: pool_events_def)

lemma pool_events_simps [simp]:
  "pool_events [] = []"
  "pool_events (Get b # t) = Get b # pool_events t"
  "pool_events (Put b # t) = Put b # pool_events t"
  "pool_events (NewWriterLevel k l # t) = pool_events t"
  "pool_events (ZWrite p # t) = pool_events t"
  "pool_events (ZClose e # t) = pool_events t"
  "pool_events (ConnWrite z # t) = pool_events t"
  "pool_events (WriteChunked z # t) = pool_events t"
  by (simp_all add: pool_events_def is_pool_event_def)

lemma sends_append [simp]: "sends (a @ b) = sends a @ sends b"
  by (simp add: sends_def map_filter_def)

lemma sends_simps [simp]:
  "sends [] = []"
  "sends (Get b # t) = sends t"
  "sends (Put b # t) = sends t"
  "sends (NewWriterLevel k l # t) = sends t"
  "sends (ZWrite p # t) = sends t"
  "sends (ZClose e # t) = sends t"
  "sends (ConnWrite z # t) = z # sends t"
  "sends (WriteChunked z # t) = z # sends t"
  by (simp_all add: sends_def map_filter_def sent_slice_def)

lemma send_pool:
  "outstanding (snd (WriteMessage_send w env z s)) = outstanding s \<and>
   pool_events (trace (snd (WriteMessage_send w env z s))) = pool_events (trace s)"
  by (simp add: WriteMessage_send_def state_ops Let_def split: option.split prod.split)

lemma compress_pool:
  assumes "compress k c l mBytes d s = (f, d', s')"
  shows "d' = ZBuf # d \<and> outstanding s' = outstanding s + 1 \<and>
         pool_events (trace s') = pool_events (trace s) @ [Get ZBuf]"
  using assms
  by (auto simp: compress_def state_ops Let_def split: prod.splits if_splits)

lemma payload_pool:
  assumes "WriteMessage_payload w env m s = (f, d, s')"
  shows "(d = [MBuf] \<and> outstanding s' = outstanding s + 1 \<and>
          pool_events (trace s') = pool_events (trace s) @ [Get MBuf]) \<or>
         (d = [ZBuf, MBuf] \<and> outstanding s' = outstanding s + 2 \<and>
          pool_events (trace s') = pool_events (trace s) @ [Get MBuf, Get ZBuf])"
proof (cases "MarshalJSONBuf env m")
  case (Inl e)
  with assms show ?thesis
    by (auto simp: WriteMessage_payload_def state_ops Let_def)
next
  case (Inr mBytes)
  let ?s1 = "newBuffer MBuf s"
  have s1: "outstanding ?s1 = outstanding s + 1"
    "pool_events (trace ?s1) = pool_events (trace s) @ [Get MBuf]"
    by (simp_all add: state_ops)
  consider (gz) "CompressionType w = CompressGzip"
    | (zl) "CompressionType w \<noteq> CompressGzip" "CompressionType w = CompressZlib"
    | (other) "CompressionType w \<noteq> CompressGzip" "CompressionType w \<noteq> CompressZlib"
    by blast
  then show ?thesis
  proof cases
    case gz
    with Inr assms have "compress Gzip (gzip env) (CompressionLevel w) mBytes [MBuf] ?s1 = (f, d, s')"
      by (simp add: WriteMessage_payload_def Let_def)
    from compress_pool [OF this] s1 show ?thesis by simp
  next
    case zl
    with Inr assms have "compress Zlib (zlib env) (CompressionLevel w) mBytes [MBuf] ?s1 = (f, d, s')"
      by (simp add: WriteMessage_payload_def Let_def)
    from compress_pool [OF this] s1 show ?thesis by simp
  next
    case other
    with Inr assms have "d = [MBuf] \<and> s' = ?s1"
      by (auto simp: WriteMessage_payload_def Let_def split: if_splits)
    with s1 show ?thesis by simp
  qed
qed

lemma run_deferred_pool:
  "outstanding (run_deferred [MBuf] s) = outstanding s - 1"
  "pool_events (trace (run_deferred [MBuf] s)) = pool_events (trace s) @ [Put MBuf]"
  "outstanding (run_deferred [ZBuf, MBuf] s) = outstanding s - 2"
  "pool_events (trace (run_deferred [ZBuf, MBuf] s)) = pool_events (trace s) @ [Put ZBuf, Put MBuf]"
  by (simp_all add: state_ops)

text \<open>
  C3. After every call of \<open>WriteMessage\<close>, whatever the exit path (a return of nil or
  of an error from the serializer, a codec or the transport, or a panic), the number of
  buffers outstanding is what it was before the call, and the pool's events of the call
  are one acquisition of \<open>mBuf\<close> and one release of it, with, on the compressing paths,
  one acquisition and one release of \<open>zBuf\<close> in between: each buffer acquired is released
  exactly once.
\<close>

theorem WriteMessage_pool_balance:
  "outstanding (snd (WriteMessage w env m s)) = outstanding s \<and>
   (pool_events (trace (snd (WriteMessage w env m s))) =
      pool_events (trace s) @ [Get MBuf, Put MBuf] \<or>
    pool_events (trace (snd (WriteMessage w env m s))) =
      pool_events (trace s) @ [Get MBuf, Get ZBuf, Put ZBuf, Put MBuf])"
proof -
  obtain f d s1 where p: "WriteMessage_payload w env m s = (f, d, s1)"
    by (cases "WriteMessage_payload w env m s") auto
  note pp = payload_pool [OF p]
  show ?thesis
  proof (cases f)
    case (Done r)
    with p have "snd (WriteMessage w env m s) = run_deferred d s1"
      by (simp add: WriteMessage_def)
    with pp show ?thesis
      by (auto simp: run_deferred_pool)
  next
    case (Payload z)
    with p have "snd (WriteMessage w env m s) = run_deferred d (snd (WriteMessage_send w env z s1))"
      by (simp add: WriteMessage_def split: prod.split)
    with pp send_pool [of w env z s1] show ?thesis
      by (auto simp: run_deferred_pool)
  qed
qed

theorem WriteMessage_pool_balance_witness:
  "outstanding (snd (WriteMessage (toy_writer refusing_conn CompressZlib)
      (toy_env None (toy_codec None None None)) [1, 2, 3] idle)) = 0"
  using WriteMessage_pool_balance [of "toy_writer refusing_conn CompressZlib"
      "toy_env None (toy_codec None None None)" "[1, 2, 3]" idle]
  by (simp add: idle_def)

subsection \<open>The paths through WriteMessage\<close>

lemmas enum_defs = CompressGzip_def CompressZlib_def CompressNone_def
lemmas toy_defs = toy_codec_def toy_env_def toy_writer_def toy_sys_def idle_def
  good_conn_def refusing_conn_def short_conn_def flate_BestSpeed_def
lemmas WriteMessage_defs = WriteMessage_def WriteMessage_payload_def WriteMessage_send_def
  compress_def state_ops Let_def

lemma numChunks_short [simp]: "length b \<le> 1420 \<Longrightarrow> numChunks b = 1"
  by (simp add: numChunks_def ChunkSize_def)

lemma trace_run_deferred: "trace (run_deferred d s) = trace s @ map Put d"
  by (induction d arbitrary: s) (simp_all add: state_ops)

lemma send_outcome_state: "fst (WriteMessage_send w env z s) = fst (WriteMessage_send w env z s')"
  by (simp add: WriteMessage_send_def Let_def split: option.split prod.split)

lemma send_trace:
  "trace (snd (WriteMessage_send w env z s)) =
     trace s @ (if 1 < numChunks (snd z) then [WriteChunked z]
                else if conn w = None then [] else [ConnWrite z])"
  by (simp add: WriteMessage_send_def Let_def emit_def split: option.split prod.split)

lemma compress_no_sends:
  "compress k c l mBytes d s = (f, d', s') \<Longrightarrow> sends (trace s') = sends (trace s)"
  by (auto simp: compress_def state_ops Let_def split: prod.splits if_splits)

lemma payload_no_sends:
  "WriteMessage_payload w env m s = (f, d, s') \<Longrightarrow> sends (trace s') = sends (trace s)"
  by (auto simp: WriteMessage_payload_def state_ops Let_def
      split: sum.splits if_splits dest: compress_no_sends)

lemma payload_compressed:
  assumes "MarshalJSONBuf env m = Inr mBytes"
    and "CompressionType w = CompressGzip \<and> k = Gzip \<and> c = gzip env \<or>
         CompressionType w = CompressZlib \<and> k = Zlib \<and> c = zlib env"
    and "zNew c (CompressionLevel w) = None"
    and "zWrite c (CompressionLevel w) mBytes = (out1, None)"
    and "zClose c (CompressionLevel w) mBytes None = (out2, cerr)"
  shows "WriteMessage_payload w env m s =
    (Payload (ZBuf, out1 @ out2), [ZBuf, MBuf],
     s\<lparr>outstanding := outstanding s + 2,
       trace := trace s @ [Get MBuf, Get ZBuf, NewWriterLevel k (CompressionLevel w),
                           ZWrite mBytes, ZClose cerr]\<rparr>)"
  using assms
  by (auto simp: WriteMessage_payload_def compress_def state_ops Let_def enum_defs)

lemma constructor_error:
  assumes "MarshalJSONBuf env m = Inr mBytes"
    and "CompressionType w = CompressGzip \<and> k = Gzip \<and> c = gzip env \<or>
         CompressionType w = CompressZlib \<and> k = Zlib \<and> c = zlib env"
    and "zNew c (CompressionLevel w) = Some e"
  shows "WriteMessage w env m s =
    (Return (Some e),
     s\<lparr>trace := trace s @ [Get MBuf, Get ZBuf, NewWriterLevel k (CompressionLevel w),
                            Put ZBuf, Put MBuf]\<rparr>)"
  using assms
  by (auto simp: WriteMessage_def WriteMessage_payload_def compress_def state_ops Let_def enum_defs)

lemma write_error:
  assumes "MarshalJSONBuf env m = Inr mBytes"
    and "CompressionType w = CompressGzip \<and> k = Gzip \<and> c = gzip env \<or>
         CompressionType w = CompressZlib \<and> k = Zlib \<and> c = zlib env"
    and "zNew c (CompressionLevel w) = None"
    and "zWrite c (CompressionLevel w) mBytes = (out1, Some e)"
    and "zClose c (CompressionLevel w) mBytes (Some e) = (out2, cerr)"
  shows "WriteMessage w env m s =
    (Return (Some e),
     s\<lparr>trace := trace s @ [Get MBuf, Get ZBuf, NewWriterLevel k (CompressionLevel w),
                            ZWrite mBytes, ZClose cerr, Put ZBuf, Put MBuf]\<rparr>)"
  using assms
  by (auto simp: WriteMessage_def WriteMessage_payload_def compress_def state_ops Let_def enum_defs)

subsection \<open>Compression errors\<close>

text \<open>
  C2, as stated, fails: with a Gzip codec whose \<open>Close\<close> reports an error after a
  successful write, over a transport that accepts the datagram, \<open>WriteMessage\<close> returns
  nil and the message is sent.
\<close>

theorem close_error_counterexample:
  "WriteMessage (toy_writer good_conn CompressGzip)
     (toy_env None (toy_codec None None (Some (Err ''close'')))) [1, 2, 3] idle =
   (Return None,
    \<lparr>outstanding = 0,
     trace = [Get MBuf, Get ZBuf, NewWriterLevel Gzip 1, ZWrite [1, 2, 3],
              ZClose (Some (Err ''close'')), ConnWrite (ZBuf, [31, 1, 2, 3, 0]),
              Put ZBuf, Put MBuf]\<rparr>)"
  by (simp add: WriteMessage_defs toy_defs enum_defs)

text \<open>
  C2, amended. For CompressType Gzip or Zlib, once the record is serialized: an error of
  the codec's constructor is returned verbatim and nothing is handed to a sender; an
  error of the codec's \<open>Write\<close> is returned verbatim and nothing is handed to a sender;
  and after a successful \<open>Write\<close> the error of \<open>Close\<close> is discarded: whatever \<open>Close\<close>
  returned, \<open>WriteMessage\<close> hands the scratch buffer's contents (what \<open>Write\<close> and
  \<open>Close\<close> put there) to the sender, exactly once, as the one event between the call of
  \<open>Close\<close> and the release of the two buffers, and its result is the sender's result.
  (Only a writer with a nil connection and a payload of one chunk sends nothing: the
  call panics there.)
\<close>

theorem codec_errors:
  assumes m: "MarshalJSONBuf env m = Inr mBytes"
    and t: "CompressionType w = CompressGzip \<and> c = gzip env \<or>
         CompressionType w = CompressZlib \<and> c = zlib env"
  shows "(\<forall>e. zNew c (CompressionLevel w) = Some e \<longrightarrow>
            fst (WriteMessage w env m s) = Return (Some e) \<and>
            sends (trace (snd (WriteMessage w env m s))) = sends (trace s)) \<and>
         (\<forall>e. zNew c (CompressionLevel w) = None \<longrightarrow>
            snd (zWrite c (CompressionLevel w) mBytes) = Some e \<longrightarrow>
            fst (WriteMessage w env m s) = Return (Some e) \<and>
            sends (trace (snd (WriteMessage w env m s))) = sends (trace s)) \<and>
         (zNew c (CompressionLevel w) = None \<longrightarrow>
            snd (zWrite c (CompressionLevel w) mBytes) = None \<longrightarrow>
            fst (WriteMessage w env m s) =
              fst (WriteMessage_send w env
                (ZBuf, fst (zWrite c (CompressionLevel w) mBytes) @
                       fst (zClose c (CompressionLevel w) mBytes None)) s) \<and>
            trace (snd (WriteMessage w env m s)) =
              trace s @
              [Get MBuf, Get ZBuf,
               NewWriterLevel (if CompressionType w = CompressGzip then Gzip else Zlib)
                 (CompressionLevel w),
               ZWrite mBytes,
               ZClose (snd (zClose c (CompressionLevel w) mBytes None))] @
              (if 1 < numChunks (fst (zWrite c (CompressionLevel w) mBytes) @
                                 fst (zClose c (CompressionLevel w) mBytes None))
               then [WriteChunked
                      (ZBuf, fst (zWrite c (CompressionLevel w) mBytes) @
                             fst (zClose c (CompressionLevel w) mBytes None))]
               else if conn w = None then []
               else [ConnWrite
                      (ZBuf, fst (zWrite c (CompressionLevel w) mBytes) @
                             fst (zClose c (CompressionLevel w) mBytes None))]) @
              [Put ZBuf, Put MBuf] \<and>
            sends (trace (snd (WriteMessage w env m s))) =
              sends (trace s) @
              (if numChunks (fst (zWrite c (CompressionLevel w) mBytes) @
                             fst (zClose c (CompressionLevel w) mBytes None)) \<le> 1 \<and>
                  conn w = None
               then []
               else [(ZBuf, fst (zWrite c (CompressionLevel w) mBytes) @
                            fst (zClose c (CompressionLevel w) mBytes None))]))"
proof -
  let ?l = "CompressionLevel w"
  let ?k = "if CompressionType w = CompressGzip then Gzip else Zlib"
  have k: "CompressionType w = CompressGzip \<and> ?k = Gzip \<and> c = gzip env \<or>
      CompressionType w = CompressZlib \<and> ?k = Zlib \<and> c = zlib env"
    using t by (auto simp: enum_defs)
  have 1: "fst (WriteMessage w env m s) = Return (Some e) \<and>
      sends (trace (snd (WriteMessage w env m s))) = sends (trace s)"
    if "zNew c ?l = Some e" for e
    by (simp add: constructor_error [OF m k that])
  have 2: "fst (WriteMessage w env m s) = Return (Some e) \<and>
      sends (trace (snd (WriteMessage w env m s))) = sends (trace s)"
    if n: "zNew c ?l = None" and w: "snd (zWrite c ?l mBytes) = Some e" for e
  proof -
    obtain out1 where o1: "zWrite c ?l mBytes = (out1, Some e)"
      using w by (cases "zWrite c ?l mBytes") auto
    obtain out2 cerr where o2: "zClose c ?l mBytes (Some e) = (out2, cerr)"
      by (cases "zClose c ?l mBytes (Some e)") auto
    show ?thesis
      by (simp add: write_error [OF m k n o1 o2])
  qed
  have 3: "fst (WriteMessage w env m s) =
        fst (WriteMessage_send w env
          (ZBuf, fst (zWrite c ?l mBytes) @ fst (zClose c ?l mBytes None)) s) \<and>
      trace (snd (WriteMessage w env m s)) =
        trace s @
        [Get MBuf, Get ZBuf, NewWriterLevel ?k ?l, ZWrite mBytes,
         ZClose (snd (zClose c ?l mBytes None))] @
        (if 1 < numChunks (fst (zWrite c ?l mBytes) @ fst (zClose c ?l mBytes None))
         then [WriteChunked (ZBuf, fst (zWrite c ?l mBytes) @ fst (zClose c ?l mBytes None))]
         else if conn w = None then []
         else [ConnWrite (ZBuf, fst (zWrite c ?l mBytes) @ fst (zClose c ?l mBytes None))]) @
        [Put ZBuf, Put MBuf] \<and>
      sends (trace (snd (WriteMessage w env m s))) =
        sends (trace s) @
        (if numChunks (fst (zWrite c ?l mBytes) @ fst (zClose c ?l mBytes None)) \<le> 1 \<and>
            conn w = None
         then []
         else [(ZBuf, fst (zWrite c ?l mBytes) @ fst (zClose c ?l mBytes None))])"
    if n: "zNew c ?l = None" and w: "snd (zWrite c ?l mBytes) = None"
  proof -
    obtain out1 where o1: "zWrite c ?l mBytes = (out1, None)"
      using w by (cases "zWrite c ?l mBytes") auto
    obtain out2 cerr where o2: "zClose c ?l mBytes None = (out2, cerr)"
      by (cases "zClose c ?l mBytes None") auto
    let ?z = "(ZBuf, out1 @ out2)"
    let ?s1 = "s\<lparr>outstanding := outstanding s + 2,
      trace := trace s @ [Get MBuf, Get ZBuf, NewWriterLevel ?k ?l, ZWrite mBytes, ZClose cerr]\<rparr>"
    have wm: "WriteMessage w env m s =
        (fst (WriteMessage_send w env ?z ?s1),
         run_deferred [ZBuf, MBuf] (snd (WriteMessage_send w env ?z ?s1)))"
      by (simp add: WriteMessage_def payload_compressed [OF m k n o1 o2] split: prod.split)
    have r: "fst (WriteMessage w env m s) = fst (WriteMessage_send w env ?z s)"
      unfolding wm fst_conv by (rule send_outcome_state)
    have tr: "trace (snd (WriteMessage w env m s)) =
        trace s @ [Get MBuf, Get ZBuf, NewWriterLevel ?k ?l, ZWrite mBytes, ZClose cerr] @
        (if 1 < numChunks (out1 @ out2) then [WriteChunked ?z]
         else if conn w = None then [] else [ConnWrite ?z]) @
        [Put ZBuf, Put MBuf]"
      unfolding wm snd_conv by (simp add: trace_run_deferred send_trace)
    have sn: "sends (trace (snd (WriteMessage w env m s))) =
        sends (trace s) @
        (if numChunks (out1 @ out2) \<le> 1 \<and> conn w = None then [] else [?z])"
      unfolding tr by simp
    from r tr sn show ?thesis
      by (simp only: o1 o2 fst_conv snd_conv)
  qed
  from 1 2 3 show ?thesis by blast
qed

theorem codec_errors_witness:
  "fst (WriteMessage (toy_writer good_conn CompressGzip)
     (toy_env None (toy_codec (Some (Err ''level'')) None None)) [1, 2, 3] idle) =
     Return (Some (Err ''level'')) \<and>
   sends (trace (snd (WriteMessage (toy_writer good_conn CompressGzip)
     (toy_env None (toy_codec (Some (Err ''level'')) None None)) [1, 2, 3] idle))) = [] \<and>
   fst (WriteMessage (toy_writer good_conn CompressZlib)
     (toy_env None (toy_codec None (Some (Err ''write'')) None)) [1, 2, 3] idle) =
     Return (Some (Err ''write'')) \<and>
   sends (trace (snd (WriteMessage (toy_writer good_conn CompressZlib)
     (toy_env None (toy_codec None (Some (Err ''write'')) None)) [1, 2, 3] idle))) = [] \<and>
   fst (WriteMessage (toy_writer good_conn CompressZlib)
     (toy_env None (toy_codec None None (Some (Err ''close'')))) [1, 2, 3] idle) =
     Return None \<and>
   trace (snd (WriteMessage (toy_writer good_conn CompressZlib)
     (toy_env None (toy_codec None None (Some (Err ''close'')))) [1, 2, 3] idle)) =
     [Get MBuf, Get ZBuf, NewWriterLevel Zlib 1, ZWrite [1, 2, 3],
      ZClose (Some (Err ''close'')), ConnWrite (ZBuf, [31, 1, 2, 3, 0]),
      Put ZBuf, Put MBuf] \<and>
   sends (trace (snd (WriteMessage (toy_writer good_conn CompressZlib)
     (toy_env None (toy_codec None None (Some (Err ''close'')))) [1, 2, 3] idle))) =
     [(ZBuf, [31, 1, 2, 3, 0])]"
  using
    codec_errors [of "toy_env None (toy_codec (Some (Err ''level'')) None None)" "[1, 2, 3]"
      "[1, 2, 3]" "toy_writer good_conn CompressGzip" "toy_codec (Some (Err ''level'')) None None" idle]
    codec_errors [of "toy_env None (toy_codec None (Some (Err ''write'')) None)" "[1, 2, 3]"
      "[1, 2, 3]" "toy_writer good_conn CompressZlib" "toy_codec None (Some (Err ''write'')) None" idle]
    codec_errors [of "toy_env None (toy_codec None None (Some (Err ''close'')))" "[1, 2, 3]"
      "[1, 2, 3]" "toy_writer good_conn CompressZlib" "toy_codec None None (Some (Err ''close''))" idle]
  by (simp add: toy_defs enum_defs WriteMessage_send_def)

text \<open>
  C5. When compressing with Gzip or Zlib, if writing the serialized record to the
  compressor fails with \<open>e\<close>, the compressor is closed all the same (the event
  \<open>ZClose\<close> follows the write), and \<open>WriteMessage\<close> returns \<open>e\<close> whatever \<open>Close\<close>
  returned (\<open>cerr\<close>), in particular when \<open>Close\<close> fails too; nothing is sent and both
  buffers go back to the pool.
\<close>

theorem write_error_closes:
  assumes "MarshalJSONBuf env m = Inr mBytes"
    and "CompressionType w = CompressGzip \<and> k = Gzip \<and> c = gzip env \<or>
         CompressionType w = CompressZlib \<and> k = Zlib \<and> c = zlib env"
    and "zNew c (CompressionLevel w) = None"
    and "zWrite c (CompressionLevel w) mBytes = (out1, Some e)"
    and "zClose c (CompressionLevel w) mBytes (Some e) = (out2, cerr)"
  shows "WriteMessage w env m s =
    (Return (Some e),
     s\<lparr>trace := trace s @ [Get MBuf, Get ZBuf, NewWriterLevel k (CompressionLevel w),
                            ZWrite mBytes, ZClose cerr, Put ZBuf, Put MBuf]\<rparr>)"
  using assms by (rule write_error)

theorem write_error_closes_witness:
  "WriteMessage (toy_writer good_conn CompressGzip)
     (toy_env None (toy_codec None (Some (Err ''write'')) (Some (Err ''close'')))) [1, 2, 3] idle =
   (Return (Some (Err ''write'')),
    \<lparr>outstanding = 0,
     trace = [Get MBuf, Get ZBuf, NewWriterLevel Gzip 1, ZWrite [1, 2, 3],
              ZClose (Some (Err ''close'')), Put ZBuf, Put MBuf]\<rparr>)"
  using write_error_closes [of "toy_env None (toy_codec None (Some (Err ''write'')) (Some (Err ''close'')))"
      "[1, 2, 3]" "[1, 2, 3]" "toy_writer good_conn CompressGzip" Gzip
      "toy_codec None (Some (Err ''write'')) (Some (Err ''close''))" "[31, 1, 2, 3]"
      "Err ''write''" "[0]" "Some (Err ''close'')" idle]
  by (simp add: toy_defs enum_defs)

subsection \<open>The direct sender\<close>

text \<open>
  C6, as stated, fails: on the single-datagram path, a transport that reports 0 bytes
  written for a 1-byte payload together with an error makes \<open>WriteMessage\<close> return the
  transport's error, not an error describing the short write.
\<close>

theorem transport_error_counterexample:
  "numChunks [1] = 1 \<and>
   refusing_conn [1] = (0, Some (Err ''connection refused'')) \<and>
   WriteMessage (toy_writer refusing_conn CompressNone)
     (toy_env None (toy_codec None None None)) [1] idle =
   (Return (Some (Err ''connection refused'')),
    \<lparr>outstanding = 0, trace = [Get MBuf, ConnWrite (MBuf, [1]), Put MBuf]\<rparr>)"
  by (simp add: WriteMessage_defs toy_defs enum_defs)

text \<open>
  C6, amended. On the single-datagram path (\<open>numChunks\<close> is 1, the writer has a
  connection), \<open>WriteMessage\<close> performs exactly one transport write, of the payload
  \<open>zBytes\<close>, and nothing was handed to a sender before it. If the transport returns an
  error, \<open>WriteMessage\<close> returns that error whatever the byte count; if it returns no
  error and a byte count \<open>n\<close> different from the payload length, \<open>WriteMessage\<close> returns
  the error \<^verbatim>\<open>bad write (n/len)\<close> carrying the observed and the expected count;
  otherwise it returns nil.
\<close>

theorem direct_send:
  assumes p: "WriteMessage_payload w env m s = (Payload z, d, s1)"
    and n1: "numChunks (snd z) = 1"
    and c: "conn w = Some c"
    and r: "c (snd z) = (n, err)"
  shows "sends (trace s1) = sends (trace s) \<and>
         trace (snd (WriteMessage w env m s)) = trace s1 @ [ConnWrite z] @ map Put d \<and>
         fst (WriteMessage w env m s) =
           Return (if err \<noteq> None then err
                   else if n \<noteq> int (length (snd z))
                     then Some (bad_write n (int (length (snd z))))
                     else None)"
proof -
  have "sends (trace s1) = sends (trace s)"
    using p by (rule payload_no_sends)
  moreover have "WriteMessage_send w env z s1 =
      (Return (if err \<noteq> None then err
               else if n \<noteq> int (length (snd z))
                 then Some (bad_write n (int (length (snd z))))
                 else None),
       emit (ConnWrite z) s1)"
    using n1 c r by (simp add: WriteMessage_send_def Let_def)
  ultimately show ?thesis
    using p by (simp add: WriteMessage_def trace_run_deferred emit_def)
qed

theorem direct_send_witness:
  "WriteMessage_payload (toy_writer short_conn CompressNone)
     (toy_env None (toy_codec None None None)) [1, 2, 3] idle =
     (Payload (MBuf, [1, 2, 3]), [MBuf], \<lparr>outstanding = 1, trace = [Get MBuf]\<rparr>) \<and>
   numChunks [1, 2, 3] = 1 \<and>
   short_conn [1, 2, 3] = (2, None) \<and>
   trace (snd (WriteMessage (toy_writer short_conn CompressNone)
     (toy_env None (toy_codec None None None)) [1, 2, 3] idle)) =
     [Get MBuf, ConnWrite (MBuf, [1, 2, 3]), Put MBuf] \<and>
   fst (WriteMessage (toy_writer short_conn CompressNone)
     (toy_env None (toy_codec None None None)) [1, 2, 3] idle) =
     Return (Some (bad_write 2 3))"
proof -
  have p: "WriteMessage_payload (toy_writer short_conn CompressNone)
     (toy_env None (toy_codec None None None)) [1, 2, 3] idle =
     (Payload (MBuf, [1, 2, 3]), [MBuf], \<lparr>outstanding = 1, trace = [Get MBuf]\<rparr>)"
    by (simp add: WriteMessage_payload_def state_ops toy_defs enum_defs)
  have n1: "numChunks (snd (MBuf, [1, 2, 3])) = 1"
    by simp
  have c: "conn (toy_writer short_conn CompressNone) = Some short_conn"
    by (simp add: toy_writer_def)
  have r: "short_conn (snd (MBuf, [1, 2, 3])) = (2, None)"
    by (simp add: short_conn_def)
  from direct_send [OF p n1 c r] p n1 r show ?thesis
    by simp
qed

subsection \<open>No compression\<close>

text \<open>
  C7. For CompressType None, the slice that reaches the sender is the serialized record
  itself: \<open>zBytes\<close> is the view \<open>mBytes\<close> of \<open>mBuf\<close> (no scratch buffer is taken, no
  codec is called, nothing is copied), and the one event between the acquisition and
  the release of \<open>mBuf\<close> hands exactly that slice to the chunked or to the direct sender.
\<close>

theorem CompressNone_sends_serialized_bytes:
  assumes "MarshalJSONBuf env m = Inr mBytes"
    and "CompressionType w = CompressNone"
  shows "WriteMessage_payload w env m s = (Payload (MBuf, mBytes), [MBuf], newBuffer MBuf s) \<and>
         trace (snd (WriteMessage w env m s)) =
           trace s @ [Get MBuf] @
           (if numChunks mBytes > 1 then [WriteChunked (MBuf, mBytes)]
            else if conn w = None then []
            else [ConnWrite (MBuf, mBytes)]) @
           [Put MBuf]"
  using assms
  by (simp add: WriteMessage_defs enum_defs split: option.split prod.split)

theorem CompressNone_sends_serialized_bytes_witness:
  "trace (snd (WriteMessage (toy_writer good_conn CompressNone)
     (toy_env None (toy_codec None None None)) [123, 125] idle)) =
     [Get MBuf, ConnWrite (MBuf, [123, 125]), Put MBuf]"
  using CompressNone_sends_serialized_bytes [of "toy_env None (toy_codec None None None)"
      "[123, 125]" "[123, 125]" "toy_writer good_conn CompressNone" idle]
  by (simp add: toy_defs)

subsection \<open>Unknown compression types\<close>

text \<open>
  C8, as stated, fails: with CompressionType 3, a record that fails to serialize makes
  \<open>WriteMessage\<close> return the serializer's error, an ordinary error value, before the
  compression type is looked at.
\<close>

theorem serialization_error_counterexample:
  "3 \<noteq> CompressGzip \<and> 3 \<noteq> CompressZlib \<and> 3 \<noteq> CompressNone \<and>
   WriteMessage (toy_writer good_conn 3)
     (toy_env (Some (Err ''json'')) (toy_codec None None None)) [1] idle =
   (Return (Some (Err ''json'')), \<lparr>outstanding = 0, trace = [Get MBuf, Put MBuf]\<rparr>)"
  by (simp add: WriteMessage_defs toy_defs enum_defs)

text \<open>
  C8, amended. If the record serializes and the writer's CompressionType is none of
  Gzip, Zlib and None, \<open>WriteMessage\<close> panics with the unknown type (it does not
  return an error); nothing is sent and \<open>mBuf\<close> goes back to the pool.
\<close>

theorem unknown_compression_type_panics:
  assumes "MarshalJSONBuf env m = Inr mBytes"
    and "CompressionType w \<noteq> CompressGzip"
    and "CompressionType w \<noteq> CompressZlib"
    and "CompressionType w \<noteq> CompressNone"
  shows "WriteMessage w env m s =
    (Panic (unknown_compression_type (CompressionType w)),
     s\<lparr>trace := trace s @ [Get MBuf, Put MBuf]\<rparr>)"
  using assms
  by (simp add: WriteMessage_def WriteMessage_payload_def state_ops Let_def)

theorem unknown_compression_type_panics_witness:
  "WriteMessage (toy_writer good_conn 3) (toy_env None (toy_codec None None None)) [1] idle =
   (Panic (unknown_compression_type 3), \<lparr>outstanding = 0, trace = [Get MBuf, Put MBuf]\<rparr>)"
  using unknown_compression_type_panics [of "toy_env None (toy_codec None None None)" "[1]" "[1]"
      "toy_writer good_conn 3" idle]
  by (simp add: toy_defs enum_defs)

subsection \<open>The stream-sink adapter\<close>

text \<open>
  C9. For every \<open>p\<close>, \<open>Write p\<close> returns \<open>(len(p), nil)\<close> when \<open>WriteMessage\<close>, called on
  the message constructed from \<open>p\<close>, returns nil, and \<open>(0, err)\<close> when it returns the
  error \<open>err\<close>. The count is the length of the input, not of what went on the wire.
\<close>

theorem Write_result:
  assumes "getCallerIgnoringLogMulti env 1 = (file, line)"
    and "m = constructMessage env p (hostname w) (Facility w) file line"
  shows "(fst (WriteMessage w env m s) = Return None \<longrightarrow>
            fst (Write w env p s) = Return (int (length p), None)) \<and>
         (\<forall>err. fst (WriteMessage w env m s) = Return (Some err) \<longrightarrow>
            fst (Write w env p s) = Return (0, Some err))"
  using assms
  by (auto simp: Write_def split: prod.splits)

theorem Write_result_witness:
  "sends (trace (snd (Write (toy_writer good_conn CompressGzip)
     (toy_env None (toy_codec None None None)) [1, 2, 3] idle))) = [(ZBuf, [31, 1, 2, 3, 0])] \<and>
   fst (Write (toy_writer good_conn CompressGzip)
     (toy_env None (toy_codec None None None)) [1, 2, 3] idle) = Return (3, None) \<and>
   fst (Write (toy_writer refusing_conn CompressGzip)
     (toy_env None (toy_codec None None None)) [1, 2, 3] idle) =
     Return (0, Some (Err ''connection refused''))"
proof -
  let ?env = "toy_env None (toy_codec None None None)"
  have g: "getCallerIgnoringLogMulti ?env 1 = (''main.go'', 7)"
    by (simp add: toy_env_def)
  have m: "[1, 2, 3] = constructMessage ?env [1, 2, 3] (hostname w) (Facility w) ''main.go'' 7" for w :: UDPWriter
    by (simp add: toy_env_def)
  have ok: "fst (WriteMessage (toy_writer good_conn CompressGzip) ?env [1, 2, 3] idle) = Return None"
    by (simp add: WriteMessage_defs toy_defs enum_defs)
  have bad: "fst (WriteMessage (toy_writer refusing_conn CompressGzip) ?env [1, 2, 3] idle) =
      Return (Some (Err ''connection refused''))"
    by (simp add: WriteMessage_defs toy_defs enum_defs)
  have t: "sends (trace (snd (Write (toy_writer good_conn CompressGzip) ?env [1, 2, 3] idle))) =
      [(ZBuf, [31, 1, 2, 3, 0])]"
    by (simp add: Write_def WriteMessage_defs toy_defs enum_defs)
  from Write_result [OF g m, of "toy_writer good_conn CompressGzip" idle] ok
    Write_result [OF g m, of "toy_writer refusing_conn CompressGzip" idle] bad t
  show ?thesis by simp
qed

subsection \<open>Construction\<close>

text \<open>
  C10. A writer returned by \<open>NewUDPWriter\<close> has CompressionLevel \<open>flate.BestSpeed\<close> and
  CompressionType at its zero value, which is \<open>CompressGzip\<close>; \<open>WriteMessage\<close> on it
  takes the Gzip arm, compressing a serialized record with the gzip codec at that level.
\<close>

theorem NewUDPWriter_defaults:
  assumes "NewUDPWriter sy addr = Inr w"
  shows "CompressionLevel w = flate_BestSpeed \<and> CompressionType w = CompressGzip \<and>
         (MarshalJSONBuf env m = Inr mBytes \<longrightarrow>
            WriteMessage_payload w env m s =
              compress Gzip (gzip env) flate_BestSpeed mBytes [MBuf] (newBuffer MBuf s))"
  using assms
  by (auto simp: NewUDPWriter_def new_UDPWriter_def WriteMessage_payload_def Let_def enum_defs
      split: sum.splits)

theorem NewUDPWriter_defaults_witness:
  "NewUDPWriter toy_sys ''127.0.0.1:12201'' = Inr (toy_writer good_conn 0) \<and>
   CompressionType (toy_writer good_conn 0) = CompressGzip \<and>
   trace (snd (WriteMessage (toy_writer good_conn 0)
     (toy_env None (toy_codec None None None)) [1, 2, 3] idle)) =
     [Get MBuf, Get ZBuf, NewWriterLevel Gzip 1, ZWrite [1, 2, 3], ZClose None,
      ConnWrite (ZBuf, [31, 1, 2, 3, 0]), Put ZBuf, Put MBuf]"
proof -
  have n: "NewUDPWriter toy_sys ''127.0.0.1:12201'' = Inr (toy_writer good_conn 0)"
    by (simp add: NewUDPWriter_def new_UDPWriter_def toy_defs)
  have t: "trace (snd (WriteMessage (toy_writer good_conn 0)
     (toy_env None (toy_codec None None None)) [1, 2, 3] idle)) =
     [Get MBuf, Get ZBuf, NewWriterLevel Gzip 1, ZWrite [1, 2, 3], ZClose None,
      ConnWrite (ZBuf, [31, 1, 2, 3, 0]), Put ZBuf, Put MBuf]"
    by (simp add: WriteMessage_defs toy_defs enum_defs)
  from NewUDPWriter_defaults [OF n, of "toy_env None (toy_codec None None None)" "[1, 2, 3]"
      "[1, 2, 3]" idle] n t
  show ?thesis
    by simp
qed

subsection \<open>The chunk count and the one-byte header fields\<close>

text \<open>
  \<open>numChunks\<close> is at least 1 and has no upper bound of its own: 359040 bytes (255 times
  1408) give 256. \<open>WriteMessage\<close> hands every payload of more than one chunk to
  \<open>writeChunked\<close> and returns its result, without a bound of its own either.
\<close>

lemma numChunks_pos: "1 \<le> numChunks b"
  by (simp add: numChunks_def chunk_consts Let_def pos_imp_zdiv_nonneg_iff)

lemma numChunks_256: "numChunks (replicate 359040 0) = 256"
  by (simp add: numChunks_def chunk_consts)

lemma chunked_dispatch:
  assumes "WriteMessage_payload w env m s = (Payload z, d, s1)"
    and "1 < numChunks (snd z)"
  shows "WriteMessage w env m s =
    (Return (writeChunked env (snd z)), run_deferred d (emit (WriteChunked z) s1))"
  using assms by (simp add: WriteMessage_def WriteMessage_send_def)

end
